theory Spec2Isabelle
  imports Main "HOL-Library.Word"
begin

section \<open>The IDE Perf JVMTI agent (agent.cpp)\<close>

text \<open>
  The agent has four entry points, all called by the Java virtual machine:
  \<^item> \<open>SampledObjectAlloc\<close>, the JVMTI callback for a sampled allocation;
  \<^item> \<open>Java_com_google_idea_perf_AllocationSampling_countAllocationsForCurrentThread\<close>,
    the native method that reads the calling thread's counter;
  \<^item> \<open>Agent_OnAttach\<close> and \<open>Agent_OnLoad\<close>, which set the agent up.
  Its only data is the \<open>thread_local jlong thread_allocations\<close>; everything else it
  does is a call into the virtual machine or a line on \<open>stderr\<close>.
\<close>

subsection \<open>Types and constants of jni.h and jvmti.h\<close>

text \<open>
  \<open>jint\<close> and \<open>jlong\<close> are Java's \<open>int\<close> and \<open>long\<close>: 32 and 64 bits, read as two's
  complement (\<open>sint\<close>). \<open>jvmtiError\<close> is a C enumeration; the agent only compares it
  with \<open>JVMTI_ERROR_NONE\<close> and prints it with \<open>%d\<close>, so it is an \<open>int\<close> here.
  A thread is identified by a number.
\<close>

type_synonym jint = "32 word"
type_synonym jlong = "64 word"
type_synonym jvmtiError = int
type_synonym thread = nat

definition JNI_OK :: jint where
  "JNI_OK = 0"

definition JNI_ERR :: jint where
  "JNI_ERR = - 1"

definition JVMTI_ERROR_NONE :: jvmtiError where
  "JVMTI_ERROR_NONE = 0"

datatype jvmti_version = JVMTI_VERSION_11

datatype capability = can_generate_sampled_object_alloc_events

datatype jvmtiEvent = JVMTI_EVENT_SAMPLED_OBJECT_ALLOC

datatype jvmtiEventMode = JVMTI_DISABLE | JVMTI_ENABLE

subsection \<open>The virtual machine as the agent sees it\<close>

text \<open>
  The agent calls six functions of the virtual machine. What they answer is not the
  agent's business, so it is a parameter: a \<open>JavaVM\<close> gives the status each call returns and,
  for \<open>GetErrorName\<close>, also the string left in \<open>name\<close> (\<open>None\<close> when the pointer
  stays \<open>nullptr\<close>). Each call the agent makes is appended to \<open>host_calls\<close>, with its
  arguments, so that the order of the calls and the calls never made can be read off the
  state afterwards.
\<close>

record JavaVM =
  vm_GetEnv :: "jvmti_version \<Rightarrow> jint"
  jvmti_AddCapabilities :: "capability list \<Rightarrow> jvmtiError"
  jvmti_SetEventCallbacks :: "jvmtiEvent list \<Rightarrow> jvmtiError"
  jvmti_SetHeapSamplingInterval :: "jint \<Rightarrow> jvmtiError"
  jvmti_SetEventNotificationMode ::
    "jvmtiEventMode \<Rightarrow> jvmtiEvent \<Rightarrow> thread option \<Rightarrow> jvmtiError"
  jvmti_GetErrorName :: "jvmtiError \<Rightarrow> jvmtiError \<times> string option"

datatype host_call =
    GetEnv jvmti_version
  | AddCapabilities "capability list"
  | SetEventCallbacks "jvmtiEvent list"
  | SetHeapSamplingInterval jint
  | SetEventNotificationMode jvmtiEventMode jvmtiEvent "thread option"
  | GetErrorName jvmtiError
  | Deallocate "string option"

subsection \<open>The state\<close>

text \<open>
  \<open>thread_allocations\<close> is thread-local: every thread has its own instance, which starts
  at 0. The state holds all of them, indexed by thread, next to the text written to
  \<open>stderr\<close> and the calls made into the virtual machine.
\<close>

record world =
  thread_allocations :: "thread \<Rightarrow> jlong"
  stderr :: string
  host_calls :: "host_call list"

definition initial_world :: world where
  "initial_world = \<lparr>thread_allocations = (\<lambda>_. 0), stderr = [], host_calls = []\<rparr>"

definition fprintf_stderr :: "string \<Rightarrow> world \<Rightarrow> world" where
  "fprintf_stderr s w = w\<lparr>stderr := stderr w @ s\<rparr>"

definition invoke :: "host_call \<Rightarrow> world \<Rightarrow> world" where
  "invoke c w = w\<lparr>host_calls := host_calls w @ [c]\<rparr>"

subsection \<open>printf's \<open>%d\<close>\<close>

definition digit :: "nat \<Rightarrow> char" where
  "digit n = ''0123456789'' ! n"

fun dec_nat :: "nat \<Rightarrow> string" where
  "dec_nat n = (if n < 10 then [digit n] else dec_nat (n div 10) @ [digit (n mod 10)])"

declare dec_nat.simps [simp del]

definition dec_int :: "int \<Rightarrow> string" where
  "dec_int i = (if i < 0 then CHR ''-'' # dec_nat (nat (- i)) else dec_nat (nat i))"

subsection \<open>HandleJvmtiError\<close>

text \<open>
  \<^verbatim>\<open>fprintf(stderr, "JVMTI error: %d(%s) %s\n", err, desc, msg)\<close>: the line it writes.
  The status that \<open>GetErrorName\<close> returns is dropped; only \<open>name\<close> is looked at.
\<close>

definition jvmti_error_line :: "jvmtiError \<Rightarrow> string \<Rightarrow> string \<Rightarrow> string" where
  "jvmti_error_line err desc msg =
     ''JVMTI error: '' @ dec_int err @ ''('' @ desc @ '') '' @ msg @ [CHR 0x0A]"

definition HandleJvmtiError :: "JavaVM \<Rightarrow> jvmtiError \<Rightarrow> string \<Rightarrow> world \<Rightarrow> bool \<times> world" where
  "HandleJvmtiError jvmti err msg w =
     (if err = JVMTI_ERROR_NONE then (False, w)
      else
        let name = snd (jvmti_GetErrorName jvmti err);
            w1 = invoke (GetErrorName err) w;
            desc = (case name of Some n \<Rightarrow> n | None \<Rightarrow> ''Unknown'');
            w2 = fprintf_stderr (jvmti_error_line err desc msg) w1;
            w3 = invoke (Deallocate name) w2
        in (True, w3))"

subsection \<open>The sampling interval and the counter\<close>

definition kHeapSamplingInterval :: jint where
  "kHeapSamplingInterval = 256 * 1024"

text \<open>\<open>constexpr jlong kHeapSamplingIntervalLong = kHeapSamplingInterval\<close>: a sign-extending
  conversion from \<open>jint\<close> to \<open>jlong\<close>.\<close>

definition kHeapSamplingIntervalLong :: jlong where
  "kHeapSamplingIntervalLong = scast kHeapSamplingInterval"

text \<open>\<open>std::max(a, b)\<close> is \<open>(a < b) ? b : a\<close>, with the signed comparison of \<open>jlong\<close>.\<close>

definition std_max :: "jlong \<Rightarrow> jlong \<Rightarrow> jlong" where
  "std_max a b = (if a <s b then b else a)"

text \<open>
  \<open>SampledObjectAlloc(jvmti, jni, thread, object, klass, size)\<close> uses none of its
  arguments but \<open>size\<close> (\<open>sz\<close> here). The counter it adds to is the instance of the
  thread that runs it, \<open>self\<close>. The \<open>+=\<close> has no check: it is the 64-bit two's-complement
  addition of the machine, which wraps around (C++ itself gives a signed overflow no
  meaning).
\<close>

definition SampledObjectAlloc :: "thread \<Rightarrow> jlong \<Rightarrow> world \<Rightarrow> world" where
  "SampledObjectAlloc self sz w =
     w\<lparr>thread_allocations := (thread_allocations w)
          (self := thread_allocations w self + std_max kHeapSamplingIntervalLong sz)\<rparr>"

text \<open>The native method returns the counter of the thread that calls it, and writes nothing.\<close>

definition countAllocationsForCurrentThread :: "thread \<Rightarrow> world \<Rightarrow> jlong \<times> world" where
  "countAllocationsForCurrentThread self w = (thread_allocations w self, w)"

subsection \<open>Agent_OnAttach and Agent_OnLoad\<close>

definition Agent_OnAttach :: "JavaVM \<Rightarrow> string option \<Rightarrow> unit \<Rightarrow> world \<Rightarrow> jint \<times> world" where
  "Agent_OnAttach vm options reserved w0 =
     (let w1 = invoke (GetEnv JVMTI_VERSION_11) w0 in
      if vm_GetEnv vm JVMTI_VERSION_11 \<noteq> JNI_OK
      then (JNI_ERR,
            fprintf_stderr (''Error retrieving JVMTI function table'' @ [CHR 0x0A]) w1)
      else
        let capabilities = [can_generate_sampled_object_alloc_events];
            err = jvmti_AddCapabilities vm capabilities;
            w2 = invoke (AddCapabilities capabilities) w1;
            (failed, w3) = HandleJvmtiError vm err ''Failed to add JVMTI capabilities'' w2
        in if failed then (JNI_ERR, w3)
        else
          let callbacks = [JVMTI_EVENT_SAMPLED_OBJECT_ALLOC];
              err = jvmti_SetEventCallbacks vm callbacks;
              w4 = invoke (SetEventCallbacks callbacks) w3;
              (failed, w5) = HandleJvmtiError vm err ''Failed to set JVMTI callbacks'' w4
          in if failed then (JNI_ERR, w5)
          else
            let err = jvmti_SetHeapSamplingInterval vm kHeapSamplingInterval;
                w6 = invoke (SetHeapSamplingInterval kHeapSamplingInterval) w5;
                (failed, w7) =
                  HandleJvmtiError vm err ''Failed to set heap sampling interval'' w6
            in if failed then (JNI_ERR, w7)
            else
              let err = jvmti_SetEventNotificationMode vm
                          JVMTI_ENABLE JVMTI_EVENT_SAMPLED_OBJECT_ALLOC None;
                  w8 = invoke (SetEventNotificationMode
                          JVMTI_ENABLE JVMTI_EVENT_SAMPLED_OBJECT_ALLOC None) w7;
                  (failed, w9) = HandleJvmtiError vm err ''Failed to enable JVMTI events'' w8
              in if failed then (JNI_ERR, w9)
              else (JNI_OK, w9))"

definition Agent_OnLoad :: "JavaVM \<Rightarrow> string option \<Rightarrow> unit \<Rightarrow> world \<Rightarrow> jint \<times> world" where
  "Agent_OnLoad vm options reserved w = Agent_OnAttach vm options reserved w"

subsection \<open>Runs\<close>

text \<open>
  The virtual machine drives the agent: a run is the sequence of entry points it calls,
  each with the thread that executes it. Calls on different threads touch different
  instances of \<open>thread_allocations\<close>, so an interleaving is a list.
\<close>

datatype event =
    Alloc thread jlong
  | Count thread
  | Attach JavaVM "string option"
  | Load JavaVM "string option"

fun step :: "event \<Rightarrow> world \<Rightarrow> world" where
  "step (Alloc self sz) w = SampledObjectAlloc self sz w"
| "step (Count self) w = snd (countAllocationsForCurrentThread self w)"
| "step (Attach vm options) w = snd (Agent_OnAttach vm options () w)"
| "step (Load vm options) w = snd (Agent_OnLoad vm options () w)"

fun run :: "event list \<Rightarrow> world \<Rightarrow> world" where
  "run [] w = w"
| "run (e # es) w = run es (step e w)"

section \<open>Vocabulary of the properties\<close>

text \<open>A mathematical integer reduced modulo \<open>2^64\<close> and read as a signed 64-bit value.\<close>

definition wrap64 :: "int \<Rightarrow> int" where
  "wrap64 k = (let m = k mod 2 ^ 64 in if m < 2 ^ 63 then m else m - 2 ^ 64)"

text \<open>The sizes reported to thread \<open>t\<close> in a run, in order.\<close>

fun sizes_on :: "thread \<Rightarrow> event list \<Rightarrow> jlong list" where
  "sizes_on t [] = []"
| "sizes_on t (Alloc self sz # es) = (if self = t then sz # sizes_on t es else sizes_on t es)"
| "sizes_on t (_ # es) = sizes_on t es"

text \<open>An event overflows the counter of \<open>t\<close> when it is a notification on \<open>t\<close> whose sum
  does not fit in a \<open>jlong\<close>.\<close>

fun overflows :: "thread \<Rightarrow> world \<Rightarrow> event \<Rightarrow> bool" where
  "overflows t w (Alloc self sz) =
     (self = t \<and> 2 ^ 63 \<le> sint (thread_allocations w t) + max 262144 (sint sz))"
| "overflows t w _ = False"

text \<open>
  The five steps of \<open>Agent_OnAttach\<close>, as calls into the virtual machine, in the order of the
  source; whether the virtual machine lets each of them succeed; and, for the four JVMTI
  steps, the status returned with the description the source passes to
  \<open>HandleJvmtiError\<close>. \<open>GetErrorName\<close> and \<open>Deallocate\<close> serve the error report and are
  not steps.
\<close>

definition init_steps :: "host_call list" where
  "init_steps =
     [GetEnv JVMTI_VERSION_11,
      AddCapabilities [can_generate_sampled_object_alloc_events],
      SetEventCallbacks [JVMTI_EVENT_SAMPLED_OBJECT_ALLOC],
      SetHeapSamplingInterval 262144,
      SetEventNotificationMode JVMTI_ENABLE JVMTI_EVENT_SAMPLED_OBJECT_ALLOC None]"

definition step_ok :: "JavaVM \<Rightarrow> bool list" where
  "step_ok vm =
     [vm_GetEnv vm JVMTI_VERSION_11 = JNI_OK,
      jvmti_AddCapabilities vm [can_generate_sampled_object_alloc_events] = JVMTI_ERROR_NONE,
      jvmti_SetEventCallbacks vm [JVMTI_EVENT_SAMPLED_OBJECT_ALLOC] = JVMTI_ERROR_NONE,
      jvmti_SetHeapSamplingInterval vm 262144 = JVMTI_ERROR_NONE,
      jvmti_SetEventNotificationMode vm JVMTI_ENABLE JVMTI_EVENT_SAMPLED_OBJECT_ALLOC None
        = JVMTI_ERROR_NONE]"

fun is_step :: "host_call \<Rightarrow> bool" where
  "is_step (GetErrorName _) = False"
| "is_step (Deallocate _) = False"
| "is_step _ = True"

definition jvmti_steps :: "JavaVM \<Rightarrow> (jvmtiError \<times> string) list" where
  "jvmti_steps vm =
     [(jvmti_AddCapabilities vm [can_generate_sampled_object_alloc_events],
         ''Failed to add JVMTI capabilities''),
      (jvmti_SetEventCallbacks vm [JVMTI_EVENT_SAMPLED_OBJECT_ALLOC],
         ''Failed to set JVMTI callbacks''),
      (jvmti_SetHeapSamplingInterval vm 262144,
         ''Failed to set heap sampling interval''),
      (jvmti_SetEventNotificationMode vm JVMTI_ENABLE JVMTI_EVENT_SAMPLED_OBJECT_ALLOC None,
         ''Failed to enable JVMTI events'')]"

text \<open>
  A virtual machine for concrete runs: it answers the five steps with the given statuses
  and knows the names in \<open>names\<close>; for any other code its \<open>GetErrorName\<close> returns 103
  (\<open>JVMTI_ERROR_ILLEGAL_ARGUMENT\<close>) and leaves \<open>name\<close> alone.
\<close>

definition scripted_vm ::
  "jint \<Rightarrow> jvmtiError \<Rightarrow> jvmtiError \<Rightarrow> jvmtiError \<Rightarrow> jvmtiError \<Rightarrow> (jvmtiError \<rightharpoonup> string)
     \<Rightarrow> JavaVM" where
  "scripted_vm env caps cbs interval mode names =
     \<lparr>vm_GetEnv = (\<lambda>_. env),
      jvmti_AddCapabilities = (\<lambda>_. caps),
      jvmti_SetEventCallbacks = (\<lambda>_. cbs),
      jvmti_SetHeapSamplingInterval = (\<lambda>_. interval),
      jvmti_SetEventNotificationMode = (\<lambda>_ _ _. mode),
      jvmti_GetErrorName =
        (\<lambda>e. case names e of None \<Rightarrow> (103, None) | Some n \<Rightarrow> (0, Some n))\<rparr>"

section \<open>Facts about the model\<close>

subsection \<open>Signed 64-bit arithmetic\<close>

lemma wrap64_signed: "signed_take_bit 63 k = wrap64 k"
proof -
  define m where "m = k mod 2 ^ 64"
  have m: "0 \<le> m" "m < 2 ^ 64"
    by (simp_all add: m_def)
  have shift: "(k + 2 ^ 63) mod 2 ^ 64 = (m + 2 ^ 63) mod 2 ^ 64"
    unfolding m_def by (simp add: mod_add_left_eq)
  have "(m + 2 ^ 63) mod 2 ^ 64 = (if m < 2 ^ 63 then m + 2 ^ 63 else m - 2 ^ 63)"
  proof (cases "m < 2 ^ 63")
    case True
    with m show ?thesis by simp
  next
    case False
    have "(m + 2 ^ 63) mod 2 ^ 64 = (m - 2 ^ 63 + 2 ^ 64) mod 2 ^ 64"
      by (simp add: add.commute)
    also have "\<dots> = (m - 2 ^ 63) mod 2 ^ 64"
      by (simp only: mod_add_self2)
    also have "\<dots> = m - 2 ^ 63"
      using False m by simp
    finally show ?thesis using False by simp
  qed
  with shift have "(k + 2 ^ 63) mod 2 ^ 64 - 2 ^ 63 = (if m < 2 ^ 63 then m else m - 2 ^ 64)"
    by (simp split: if_splits)
  moreover have "signed_take_bit 63 k = (k + 2 ^ 63) mod 2 ^ 64 - 2 ^ 63"
    by (simp add: signed_take_bit_eq_take_bit_shift take_bit_eq_mod)
  moreover have "wrap64 k = (if m < 2 ^ 63 then m else m - 2 ^ 64)"
    by (simp add: wrap64_def Let_def m_def)
  ultimately show ?thesis
    by (simp only:)
qed

lemma sint_jlong_ge: "- (2 ^ 63) \<le> sint (a :: jlong)"
  using sint_ge [of a] by simp

lemma sint_add_in_range:
  fixes a b :: jlong
  assumes "- (2 ^ 63) \<le> sint a + sint b" and "sint a + sint b < 2 ^ 63"
  shows "sint (a + b) = sint a + sint b"
  using assms by (simp add: sint_word_ariths signed_take_bit_int_eq_self)

lemma sint_word_of_int_in_range:
  assumes "0 \<le> k" and "k < 2 ^ 63"
  shows "sint (word_of_int k :: jlong) = k"
  using assms by (simp add: signed_of_int signed_take_bit_int_eq_self)

subsection \<open>The amount added by one notification\<close>

lemma kHeapSamplingInterval_eq: "kHeapSamplingInterval = 262144"
  by (simp add: kHeapSamplingInterval_def)

lemma kHeapSamplingIntervalLong_eq: "kHeapSamplingIntervalLong = 262144"
  by (simp add: kHeapSamplingIntervalLong_def kHeapSamplingInterval_def)

lemma sint_std_max: "sint (std_max kHeapSamplingIntervalLong s) = max 262144 (sint s)"
  by (simp add: std_max_def word_sless_alt kHeapSamplingIntervalLong_eq max_def)

lemma sint_add_credit:
  fixes c :: jlong
  assumes "sint c + max 262144 (sint s) < 2 ^ 63"
  shows "sint (c + std_max kHeapSamplingIntervalLong s) = sint c + max 262144 (sint s)"
proof -
  have "- (2 ^ 63) \<le> sint c + max 262144 (sint s)"
    using sint_jlong_ge [of c] by simp
  with assms show ?thesis
    by (simp add: sint_add_in_range sint_std_max)
qed

lemma sum_credit_word:
  "sum_list (map (std_max kHeapSamplingIntervalLong) ss) =
     (word_of_int (\<Sum>s\<leftarrow>ss. max 262144 (sint s)) :: jlong)"
proof (induction ss)
  case Nil
  show ?case by simp
next
  case (Cons s ss)
  have "std_max kHeapSamplingIntervalLong s = word_of_int (max 262144 (sint s))"
    by (simp flip: sint_std_max)
  with Cons show ?case by simp
qed

lemma sum_credit_nonneg: "0 \<le> (\<Sum>s\<leftarrow>ss. max 262144 (sint (s :: jlong)))"
  by (induction ss) simp_all

subsection \<open>What the entry points leave alone\<close>

lemma invoke_simps:
  "host_calls (invoke c w) = host_calls w @ [c]"
  "stderr (invoke c w) = stderr w"
  "thread_allocations (invoke c w) = thread_allocations w"
  by (simp_all add: invoke_def)

lemma fprintf_simps:
  "host_calls (fprintf_stderr s w) = host_calls w"
  "stderr (fprintf_stderr s w) = stderr w @ s"
  "thread_allocations (fprintf_stderr s w) = thread_allocations w"
  by (simp_all add: fprintf_stderr_def)

lemma HandleJvmtiError_fst:
  "fst (HandleJvmtiError jvmti err msg w) = (err \<noteq> JVMTI_ERROR_NONE)"
  by (simp add: HandleJvmtiError_def Let_def)

lemma HandleJvmtiError_counters:
  "thread_allocations (snd (HandleJvmtiError jvmti err msg w)) = thread_allocations w"
  by (simp add: HandleJvmtiError_def Let_def invoke_simps fprintf_simps)

lemma HandleJvmtiError_steps:
  "filter is_step (host_calls (snd (HandleJvmtiError jvmti err msg w))) =
     filter is_step (host_calls w)"
  by (simp add: HandleJvmtiError_def Let_def invoke_simps fprintf_simps)

lemma HandleJvmtiError_stderr:
  "stderr (snd (HandleJvmtiError jvmti err msg w)) =
     stderr w @
       (if err = JVMTI_ERROR_NONE then []
        else jvmti_error_line err
               (case snd (jvmti_GetErrorName jvmti err) of None \<Rightarrow> ''Unknown'' | Some n \<Rightarrow> n)
               msg)"
  by (simp add: HandleJvmtiError_def Let_def invoke_simps fprintf_simps)

lemma Agent_OnAttach_counters:
  "thread_allocations (snd (Agent_OnAttach vm options reserved w)) = thread_allocations w"
  by (simp add: Agent_OnAttach_def Let_def split_def HandleJvmtiError_counters
      invoke_simps fprintf_simps)

subsection \<open>The counter after a run\<close>

lemma step_counter:
  "thread_allocations (step e w) t =
     thread_allocations w t + sum_list (map (std_max kHeapSamplingIntervalLong) (sizes_on t [e]))"
  by (cases e)
    (simp_all add: SampledObjectAlloc_def countAllocationsForCurrentThread_def
      Agent_OnLoad_def Agent_OnAttach_counters)

lemma sizes_on_Cons: "sizes_on t (e # es) = sizes_on t [e] @ sizes_on t es"
  by (cases e) simp_all

lemma run_counter:
  "thread_allocations (run es w) t =
     thread_allocations w t + sum_list (map (std_max kHeapSamplingIntervalLong) (sizes_on t es))"
proof (induction es arbitrary: w)
  case Nil
  show ?case by simp
next
  case (Cons e es)
  have "thread_allocations (run (e # es) w) t =
      thread_allocations (step e w) t
        + sum_list (map (std_max kHeapSamplingIntervalLong) (sizes_on t es))"
    by (simp add: Cons.IH)
  then show ?case
    by (simp add: step_counter sizes_on_Cons [of t e es] add.assoc del: sizes_on.simps)
qed

lemma run_replicate:
  "thread_allocations (run (replicate n (Alloc t sz)) w) t =
     thread_allocations w t + of_nat n * std_max kHeapSamplingIntervalLong sz"
  by (induction n arbitrary: w) (simp_all add: SampledObjectAlloc_def algebra_simps)

section \<open>The claims\<close>

subsection \<open>The counter\<close>

text \<open>
  Claim C1, as the code has it. One call of \<open>SampledObjectAlloc\<close> with reported size \<open>sz\<close>
  raises the counter of the thread that runs it by exactly \<open>max 262144 sz\<close> (sizes and
  counter read as signed 64-bit values; a negative size counts as 262144), provided the
  sum still fits in a \<open>jlong\<close>, that is, stays below \<open>2^63\<close>.
\<close>

theorem SampledObjectAlloc_adds_max:
  assumes "sint (thread_allocations w self) + max 262144 (sint sz) < 2 ^ 63"
  shows "sint (thread_allocations (SampledObjectAlloc self sz w) self) =
           sint (thread_allocations w self) + max 262144 (sint sz)"
  using assms by (simp add: SampledObjectAlloc_def sint_add_credit)

theorem SampledObjectAlloc_adds_max_witness:
  "sint (thread_allocations initial_world 0) + max 262144 (sint (500000 :: jlong)) < 2 ^ 63
   \<and> sint (thread_allocations (SampledObjectAlloc 0 500000 initial_world) 0) = 500000"
  using SampledObjectAlloc_adds_max [of initial_world 0 500000]
  by (simp add: initial_world_def)

text \<open>
  Without the proviso the claim fails: on a thread whose counter stands at \<open>2^63 - 1\<close>
  (one notification of that size from the start), a notification of size 0 leaves the
  counter at \<open>- 2^63 + 262143\<close>, not 262144 higher.
\<close>

theorem SampledObjectAlloc_adds_max_counterexample:
  "sint (thread_allocations (SampledObjectAlloc 0 9223372036854775807 initial_world) 0)
     = 9223372036854775807
   \<and> sint (thread_allocations
        (SampledObjectAlloc 0 0 (SampledObjectAlloc 0 9223372036854775807 initial_world)) 0)
     = - 9223372036854513665
   \<and> sint (thread_allocations
        (SampledObjectAlloc 0 0 (SampledObjectAlloc 0 9223372036854775807 initial_world)) 0)
     \<noteq> sint (thread_allocations (SampledObjectAlloc 0 9223372036854775807 initial_world) 0)
        + max 262144 (sint (0 :: jlong))"
  by (simp add: initial_world_def SampledObjectAlloc_def std_max_def word_sless_alt
      kHeapSamplingIntervalLong_eq)

text \<open>
  Claim C2, as the code has it. After any run from the initial state, whatever else the
  run holds (queries, notifications on other threads, \<open>Agent_OnAttach\<close>, \<open>Agent_OnLoad\<close>),
  the counter of thread \<open>t\<close> is the sum of \<open>max 262144 s\<close> over the sizes \<open>s\<close> reported on
  \<open>t\<close>, as a 64-bit value; it is that sum exactly as long as the sum stays below \<open>2^63\<close>.
\<close>

theorem counter_is_sum_of_max:
  "thread_allocations (run es initial_world) t =
     word_of_int (\<Sum>s\<leftarrow>sizes_on t es. max 262144 (sint s))
   \<and> ((\<Sum>s\<leftarrow>sizes_on t es. max 262144 (sint s)) < 2 ^ 63 \<longrightarrow>
        sint (thread_allocations (run es initial_world) t) =
          (\<Sum>s\<leftarrow>sizes_on t es. max 262144 (sint s)))"
proof -
  have "thread_allocations (run es initial_world) t =
      word_of_int (\<Sum>s\<leftarrow>sizes_on t es. max 262144 (sint s))"
    by (simp add: run_counter sum_credit_word initial_world_def)
  then show ?thesis
    by (simp add: sint_word_of_int_in_range sum_credit_nonneg)
qed

theorem counter_is_sum_of_max_witness:
  "(\<Sum>s\<leftarrow>sizes_on 0 (replicate 10 (Alloc 0 0)). max 262144 (sint s)) < 2 ^ 63
   \<and> sint (thread_allocations (run (replicate 10 (Alloc 0 0)) initial_world) 0) = 2621440"
  using counter_is_sum_of_max [of "replicate 10 (Alloc 0 0)" 0]
  by (simp add: numeral_eq_Suc)

text \<open>
  Two notifications of size \<open>2^63 - 1\<close> on one thread: the sum of the two maxima is
  \<open>2^64 - 2\<close>, the counter reads \<open>- 2\<close>.
\<close>

theorem counter_is_sum_of_max_counterexample:
  "sint (thread_allocations
      (run [Alloc 0 9223372036854775807, Alloc 0 9223372036854775807] initial_world) 0) = - 2
   \<and> sint (thread_allocations
      (run [Alloc 0 9223372036854775807, Alloc 0 9223372036854775807] initial_world) 0)
     \<noteq> max 262144 (sint (9223372036854775807 :: jlong))
        + max 262144 (sint (9223372036854775807 :: jlong))"
  by (simp add: initial_world_def SampledObjectAlloc_def std_max_def word_sless_alt
      kHeapSamplingIntervalLong_eq)

text \<open>
  Claim C3. The query returns the counter of the thread that calls it; after a run from
  the initial state with no notification on that thread, it returns 0.
\<close>

theorem count_returns_counter:
  "fst (countAllocationsForCurrentThread t w) = thread_allocations w t
   \<and> (sizes_on t es = [] \<longrightarrow>
        fst (countAllocationsForCurrentThread t (run es initial_world)) = 0)"
  by (simp add: countAllocationsForCurrentThread_def run_counter initial_world_def)

theorem count_returns_counter_witness:
  "sizes_on 0 [Alloc 1 500000, Count 0, Alloc 2 0] = []
   \<and> fst (countAllocationsForCurrentThread 0
        (run [Alloc 1 500000, Count 0, Alloc 2 0] initial_world)) = 0
   \<and> fst (countAllocationsForCurrentThread 1
        (run [Alloc 1 500000, Count 0, Alloc 2 0] initial_world)) = 500000"
  using count_returns_counter [of 0 initial_world "[Alloc 1 500000, Count 0, Alloc 2 0]"]
    count_returns_counter [of 1 "run [Alloc 1 500000, Count 0, Alloc 2 0] initial_world" "[]"]
  by (simp add: initial_world_def SampledObjectAlloc_def countAllocationsForCurrentThread_def
      std_max_def word_sless_alt kHeapSamplingIntervalLong_eq)

text \<open>
  Claim C4, as the code has it. No entry point lowers the counter of a thread \<open>t\<close>, except
  a notification on \<open>t\<close> whose sum no longer fits in a \<open>jlong\<close>: for every event that does
  not overflow the counter of \<open>t\<close>, the counter afterwards is at least the counter before.
\<close>

theorem counter_monotone_unless_overflow:
  assumes "\<not> overflows t w e"
  shows "sint (thread_allocations w t) \<le> sint (thread_allocations (step e w) t)"
proof (cases e)
  case (Alloc self sz)
  show ?thesis
  proof (cases "self = t")
    case True
    with Alloc assms
    have "sint (thread_allocations w t) + max 262144 (sint sz) < 2 ^ 63"
      by simp
    then have "sint (thread_allocations (SampledObjectAlloc t sz w) t) =
        sint (thread_allocations w t) + max 262144 (sint sz)"
      by (simp add: SampledObjectAlloc_def sint_add_credit)
    with Alloc True show ?thesis by simp
  next
    case False
    with Alloc show ?thesis by (simp add: SampledObjectAlloc_def)
  qed
qed (simp_all add: countAllocationsForCurrentThread_def Agent_OnLoad_def
    Agent_OnAttach_counters)

theorem counter_monotone_unless_overflow_witness:
  "\<not> overflows 0 (step (Alloc 0 100000) initial_world) (Alloc 0 500000)
   \<and> sint (thread_allocations (step (Alloc 0 100000) initial_world) 0) = 262144
   \<and> sint (thread_allocations
        (step (Alloc 0 500000) (step (Alloc 0 100000) initial_world)) 0) = 762144"
  using counter_monotone_unless_overflow
    [of 0 "step (Alloc 0 100000) initial_world" "Alloc 0 500000"]
  by (simp add: initial_world_def SampledObjectAlloc_def std_max_def word_sless_alt
      kHeapSamplingIntervalLong_eq)

text \<open>
  Two notifications of size \<open>2^62\<close> on one thread: the counter goes from \<open>2^62\<close> down to
  \<open>- 2^63\<close>.
\<close>

theorem counter_monotone_counterexample:
  "sint (thread_allocations (step (Alloc 0 4611686018427387904) initial_world) 0)
     = 4611686018427387904
   \<and> sint (thread_allocations
        (step (Alloc 0 4611686018427387904)
          (step (Alloc 0 4611686018427387904) initial_world)) 0)
     = - 9223372036854775808
   \<and> sint (thread_allocations
        (step (Alloc 0 4611686018427387904)
          (step (Alloc 0 4611686018427387904) initial_world)) 0)
     < sint (thread_allocations (step (Alloc 0 4611686018427387904) initial_world) 0)"
  by (simp add: initial_world_def SampledObjectAlloc_def std_max_def word_sless_alt
      kHeapSamplingIntervalLong_eq)

subsection \<open>Initialization\<close>

text \<open>
  Claim C5. \<open>Agent_OnAttach\<close> runs the five steps in order and stops at the first that
  fails: the steps it calls are exactly those up to and including the first failing one
  (all five when none fails), and it returns \<open>JNI_OK\<close> when all five succeed and
  \<open>JNI_ERR\<close>, a different status, otherwise.
\<close>

theorem Agent_OnAttach_stops_at_first_failure:
  "fst (Agent_OnAttach vm options reserved w) =
     (if False \<in> set (step_ok vm) then JNI_ERR else JNI_OK)
   \<and> JNI_ERR \<noteq> JNI_OK
   \<and> filter is_step (host_calls (snd (Agent_OnAttach vm options reserved w))) =
       filter is_step (host_calls w)
         @ take (Suc (length (takeWhile id (step_ok vm)))) init_steps"
  by (simp add: Agent_OnAttach_def Let_def split_def HandleJvmtiError_fst
      HandleJvmtiError_steps invoke_simps fprintf_simps step_ok_def init_steps_def
      kHeapSamplingInterval_eq JNI_ERR_def JNI_OK_def)

theorem Agent_OnAttach_stops_at_first_failure_witness:
  "fst (Agent_OnAttach
          (scripted_vm JNI_OK 98 0 0 0 [98 \<mapsto> ''JVMTI_ERROR_NOT_AVAILABLE''])
          None () initial_world)
     = JNI_ERR
   \<and> filter is_step (host_calls (snd (Agent_OnAttach
          (scripted_vm JNI_OK 98 0 0 0 [98 \<mapsto> ''JVMTI_ERROR_NOT_AVAILABLE''])
          None () initial_world)))
     = [GetEnv JVMTI_VERSION_11, AddCapabilities [can_generate_sampled_object_alloc_events]]
   \<and> fst (Agent_OnAttach (scripted_vm JNI_OK 0 0 0 0 Map.empty) None () initial_world)
     = JNI_OK
   \<and> filter is_step (host_calls (snd (Agent_OnAttach
          (scripted_vm JNI_OK 0 0 0 0 Map.empty) None () initial_world)))
     = init_steps"
  using Agent_OnAttach_stops_at_first_failure
      [of "scripted_vm JNI_OK 98 0 0 0 [98 \<mapsto> ''JVMTI_ERROR_NOT_AVAILABLE'']"
        None "()" initial_world]
    Agent_OnAttach_stops_at_first_failure
      [of "scripted_vm JNI_OK 0 0 0 0 Map.empty" None "()" initial_world]
  by (simp add: step_ok_def init_steps_def scripted_vm_def initial_world_def
      JVMTI_ERROR_NONE_def)

text \<open>
  Claim C6, as the code has it. \<open>Agent_OnAttach\<close> writes one line to \<open>stderr\<close> for the
  first step that fails, and nothing else. For a failing JVMTI step (add capability, set
  callbacks, set sampling interval, enable events) the line is
  \<open>JVMTI error: <code>(<name>) <description of the step>\<close>, where the name is the one
  \<open>GetErrorName\<close> gave, or \<open>Unknown\<close> when it gave none, whatever status the lookup
  itself returned. When the JVMTI handle cannot be obtained the line is the fixed text
  \<open>Error retrieving JVMTI function table\<close>, with no status code and no name.
\<close>

theorem Agent_OnAttach_diagnostics:
  "stderr (snd (Agent_OnAttach vm options reserved w)) =
     stderr w @
       (if vm_GetEnv vm JVMTI_VERSION_11 \<noteq> JNI_OK
        then ''Error retrieving JVMTI function table'' @ [CHR 0x0A]
        else case dropWhile (\<lambda>(err, msg). err = JVMTI_ERROR_NONE) (jvmti_steps vm) of
               [] \<Rightarrow> []
             | (err, msg) # _ \<Rightarrow>
                 ''JVMTI error: '' @ dec_int err @ ''(''
                   @ (case snd (jvmti_GetErrorName vm err) of
                        None \<Rightarrow> ''Unknown'' | Some n \<Rightarrow> n)
                   @ '') '' @ msg @ [CHR 0x0A])"
  by (simp add: Agent_OnAttach_def Let_def split_def HandleJvmtiError_fst
      HandleJvmtiError_stderr invoke_simps fprintf_simps jvmti_steps_def
      kHeapSamplingInterval_eq jvmti_error_line_def)

theorem Agent_OnAttach_diagnostics_witness:
  "stderr (snd (Agent_OnAttach
       (scripted_vm JNI_OK 0 0 103 0 [98 \<mapsto> ''JVMTI_ERROR_NOT_AVAILABLE''])
       None () initial_world))
     = ''JVMTI error: 103(Unknown) Failed to set heap sampling interval'' @ [CHR 0x0A]
   \<and> stderr (snd (Agent_OnAttach
       (scripted_vm JNI_OK 98 0 0 0 [98 \<mapsto> ''JVMTI_ERROR_NOT_AVAILABLE''])
       None () initial_world))
     = ''JVMTI error: 98(JVMTI_ERROR_NOT_AVAILABLE) Failed to add JVMTI capabilities''
         @ [CHR 0x0A]"
  using Agent_OnAttach_diagnostics
      [of "scripted_vm JNI_OK 0 0 103 0 [98 \<mapsto> ''JVMTI_ERROR_NOT_AVAILABLE'']"
        None "()" initial_world]
    Agent_OnAttach_diagnostics
      [of "scripted_vm JNI_OK 98 0 0 0 [98 \<mapsto> ''JVMTI_ERROR_NOT_AVAILABLE'']"
        None "()" initial_world]
  by (simp add: jvmti_steps_def scripted_vm_def initial_world_def JVMTI_ERROR_NONE_def
      JNI_OK_def dec_int_def dec_nat.simps digit_def)

text \<open>
  When \<open>GetEnv\<close> fails, \<open>Agent_OnAttach\<close> returns \<open>JNI_ERR\<close> having written only the fixed
  text and having called nothing but \<open>GetEnv\<close>: no status code, no name.
\<close>

theorem Agent_OnAttach_diagnostics_counterexample:
  "fst (Agent_OnAttach (scripted_vm JNI_ERR 0 0 0 0 Map.empty) None () initial_world) = JNI_ERR
   \<and> stderr (snd (Agent_OnAttach (scripted_vm JNI_ERR 0 0 0 0 Map.empty) None () initial_world))
       = ''Error retrieving JVMTI function table'' @ [CHR 0x0A]
   \<and> host_calls (snd (Agent_OnAttach (scripted_vm JNI_ERR 0 0 0 0 Map.empty) None ()
        initial_world))
       = [GetEnv JVMTI_VERSION_11]"
  by (simp add: Agent_OnAttach_def scripted_vm_def initial_world_def invoke_def
      fprintf_stderr_def JNI_ERR_def JNI_OK_def)

text \<open>
  Claim C7. \<open>Agent_OnLoad\<close> returns the status and the state that \<open>Agent_OnAttach\<close> returns
  on the same arguments, from the same state.
\<close>

theorem Agent_OnLoad_delegates:
  "Agent_OnLoad vm options reserved w = Agent_OnAttach vm options reserved w"
  by (simp add: Agent_OnLoad_def)

subsection \<open>Threads, overflow and the query\<close>

text \<open>
  Claim C8. A notification on thread \<open>self\<close> changes the counter of no other thread \<open>t\<close>:
  the counter of \<open>t\<close> and what a query on \<open>t\<close> returns are as before, and so are \<open>stderr\<close>
  and the calls made into the virtual machine.
\<close>

theorem SampledObjectAlloc_frame:
  assumes "t \<noteq> self"
  shows "thread_allocations (SampledObjectAlloc self sz w) t = thread_allocations w t
   \<and> fst (countAllocationsForCurrentThread t (SampledObjectAlloc self sz w)) =
       fst (countAllocationsForCurrentThread t w)
   \<and> stderr (SampledObjectAlloc self sz w) = stderr w
   \<and> host_calls (SampledObjectAlloc self sz w) = host_calls w"
  using assms by (simp add: SampledObjectAlloc_def countAllocationsForCurrentThread_def)

theorem SampledObjectAlloc_frame_witness:
  "(1 :: thread) \<noteq> 0
   \<and> thread_allocations (SampledObjectAlloc 0 7 (SampledObjectAlloc 1 500000 initial_world)) 1
       = 500000
   \<and> fst (countAllocationsForCurrentThread 1
        (SampledObjectAlloc 0 7 (SampledObjectAlloc 1 500000 initial_world))) = 500000"
  using SampledObjectAlloc_frame [of 1 0 7 "SampledObjectAlloc 1 500000 initial_world"]
  by (simp add: initial_world_def SampledObjectAlloc_def countAllocationsForCurrentThread_def
      std_max_def word_sless_alt kHeapSamplingIntervalLong_eq)

text \<open>
  Claim C9. The new counter is the old counter plus \<open>max 262144 sz\<close>, reduced modulo
  \<open>2^64\<close> and read as a signed value; and a long enough run does wrap: after \<open>2^45\<close>
  notifications of size 0 on one thread, from the initial state, its counter is negative.
\<close>

theorem SampledObjectAlloc_wraps:
  "sint (thread_allocations (SampledObjectAlloc self sz w) self) =
     wrap64 (sint (thread_allocations w self) + max 262144 (sint sz))
   \<and> sint (thread_allocations (run (replicate (2 ^ 45) (Alloc self 0)) initial_world) self)
       = - (2 ^ 63)"
proof -
  have "sint (thread_allocations (SampledObjectAlloc self sz w) self) =
      wrap64 (sint (thread_allocations w self) + max 262144 (sint sz))"
    by (simp add: SampledObjectAlloc_def sint_word_ariths sint_std_max wrap64_signed)
  moreover have "thread_allocations (run (replicate (2 ^ 45) (Alloc self 0)) initial_world) self
      = 9223372036854775808"
    by (simp add: run_replicate initial_world_def std_max_def word_sless_alt
        kHeapSamplingIntervalLong_eq)
  ultimately show ?thesis by simp
qed

text \<open>
  Claim C10. The query changes nothing: the state after it is the state before it. Two
  queries on a thread return the same value when no notification on that thread comes
  between them, whatever else does.
\<close>

theorem count_is_pure_read:
  "snd (countAllocationsForCurrentThread t w) = w
   \<and> (sizes_on t es = [] \<longrightarrow>
        fst (countAllocationsForCurrentThread t
              (run es (snd (countAllocationsForCurrentThread t w)))) =
        fst (countAllocationsForCurrentThread t w))"
  by (simp add: countAllocationsForCurrentThread_def run_counter)

theorem count_is_pure_read_witness:
  "sizes_on 0 [Alloc 1 7, Count 0, Count 1] = []
   \<and> fst (countAllocationsForCurrentThread 0 (SampledObjectAlloc 0 500000 initial_world))
       = 500000
   \<and> fst (countAllocationsForCurrentThread 0
        (run [Alloc 1 7, Count 0, Count 1]
          (snd (countAllocationsForCurrentThread 0
            (SampledObjectAlloc 0 500000 initial_world))))) = 500000"
  using count_is_pure_read
    [of 0 "SampledObjectAlloc 0 500000 initial_world" "[Alloc 1 7, Count 0, Count 1]"]
  by (simp add: initial_world_def SampledObjectAlloc_def countAllocationsForCurrentThread_def
      std_max_def word_sless_alt kHeapSamplingIntervalLong_eq)

end
